theory Spec2Isabelle
  imports Complex_Main "HOL-Library.Word" "HOL-Library.Multiset"
begin


unbundle bit_operations_syntax

section \<open>Data model\<close>

text \<open>
  The dashboard script exists in two copies: \<^verbatim>\<open>frontend/js/app.js\<close> (here \<open>Current\<close>) and an
  older copy of the same script (here \<open>Legacy\<close>). They share most functions; where they differ
  the model takes the copy as a parameter.
\<close>

datatype variant = Current | Legacy

text \<open>
  An opportunity is a JSON object pushed by the server. Its fields are typed as the data
  model gives them; a field that is absent or \<^verbatim>\<open>null\<close> is \<open>None\<close>. JavaScript numbers are
  modelled as exact rationals (JSON carries neither NaN nor infinities).
\<close>

record opportunity =
  currency :: "string option"
  gate_apr :: "rat option"
  okx_loan_rate :: "rat option"
  binance_loan_rate :: "rat option"
  net_apr :: "rat option"
  effective_ev :: "rat option"
  gate_wd_fee_usd :: "rat option"
  best_loan_source :: "string option"
  available :: "bool option"
  status :: "string option"
  okx_avail_loan :: "rat option"

text \<open>
  The filter controls of the page. The two numeric inputs are held as the result of
  \<^verbatim>\<open>parseFloat(input.value)\<close>, where \<open>None\<close> is NaN (an empty or non-numeric input).
\<close>

record controls =
  filterSource :: string
  filterApr :: "rat option"
  filterLoanSize :: "rat option"
  filterSearch :: string
  filterAvailable :: string

datatype js_error = TypeError | ReferenceError | SyntaxError | NetworkError

section \<open>JavaScript operators on the typed fields\<close>

text \<open>\<^verbatim>\<open>x || d\<close> on a numeric field: undefined, null, 0 and NaN are falsy.\<close>

definition num_or :: "rat option \<Rightarrow> rat \<Rightarrow> rat" where
  "num_or x d = (case x of None \<Rightarrow> d | Some v \<Rightarrow> if v = 0 then d else v)"

text \<open>\<^verbatim>\<open>x || d\<close> on a string field: undefined, null and the empty string are falsy.\<close>

definition str_or :: "string option \<Rightarrow> string \<Rightarrow> string" where
  "str_or x d = (case x of None \<Rightarrow> d | Some s \<Rightarrow> if s = [] then d else s)"

text \<open>
  Strings are byte lists (UTF-8). \<^verbatim>\<open>toUpperCase\<close> is modelled on the ASCII letters, which is
  what token symbols are made of; other bytes are left alone.
\<close>

definition toUpperChar :: "char \<Rightarrow> char" where
  "toUpperChar c =
     (let n = (of_char c :: nat) in if 97 \<le> n \<and> n \<le> 122 then char_of (n - 32) else c)"

definition toUpperCase :: "string \<Rightarrow> string" where
  "toUpperCase s = map toUpperChar s"

definition toLowerChar :: "char \<Rightarrow> char" where
  "toLowerChar c =
     (let n = (of_char c :: nat) in if 65 \<le> n \<and> n \<le> 90 then char_of (n + 32) else c)"

definition toLowerCase :: "string \<Rightarrow> string" where
  "toLowerCase s = map toLowerChar s"

definition isSpace :: "char \<Rightarrow> bool" where
  "isSpace c = ((of_char c :: nat) \<in> {9, 10, 11, 12, 13, 32})"

definition trim :: "string \<Rightarrow> string" where
  "trim s = rev (dropWhile isSpace (rev (dropWhile isSpace s)))"

definition startsWith :: "string \<Rightarrow> string \<Rightarrow> bool" where
  "startsWith h n = (take (length n) h = n)"

text \<open>\<^verbatim>\<open>h.includes(n)\<close>: \<open>n\<close> occurs in \<open>h\<close> as a contiguous run.\<close>

fun includesStr :: "string \<Rightarrow> string \<Rightarrow> bool" where
  "includesStr [] n = (n = [])"
| "includesStr (c # cs) n = (startsWith (c # cs) n \<or> includesStr cs n)"

text \<open>The two status strings begin with an emoji, written here by its UTF-8 bytes.\<close>

definition status_available :: string where
  "status_available = [CHR 0xE2, CHR 0x9C, CHR 0x85] @ '' AVAILABLE''"

definition status_not_available :: string where
  "status_not_available = [CHR 0xE2, CHR 0x9D, CHR 0x8C] @ '' NOT AVAILABLE''"

section \<open>The filter stage of applyFiltersAndRender\<close>

text \<open>
  Source filter. \<open>Current\<close> keeps the rows whose best source is the selected one;
  \<open>Legacy\<close> keeps the rows that have a positive rate at the selected exchange.
\<close>

definition okxMatch :: "variant \<Rightarrow> opportunity \<Rightarrow> bool" where
  "okxMatch v d = (case v of
       Current \<Rightarrow> best_loan_source d = Some ''OKX''
     | Legacy \<Rightarrow> num_or (okx_loan_rate d) 0 > 0)"

definition binanceMatch :: "variant \<Rightarrow> opportunity \<Rightarrow> bool" where
  "binanceMatch v d = (case v of
       Current \<Rightarrow> best_loan_source d = Some ''Binance''
     | Legacy \<Rightarrow> num_or (binance_loan_rate d) 0 > 0)"

definition sourceFilter :: "variant \<Rightarrow> controls \<Rightarrow> opportunity list \<Rightarrow> opportunity list" where
  "sourceFilter v c data =
     (let source = filterSource c in
      if source = ''okx'' then filter (okxMatch v) data
      else if source = ''binance'' then filter (binanceMatch v) data
      else data)"

text \<open>\<^verbatim>\<open>const minApr = parseFloat(dom.filterApr.value) || 0\<close>\<close>

definition minApr :: "controls \<Rightarrow> rat" where
  "minApr c = num_or (filterApr c) 0"

definition aprFilter :: "controls \<Rightarrow> opportunity list \<Rightarrow> opportunity list" where
  "aprFilter c data =
     (if minApr c \<noteq> 0 then filter (\<lambda>d. num_or (net_apr d) 0 \<ge> minApr c) data else data)"

definition searchTerm :: "controls \<Rightarrow> string" where
  "searchTerm c = toUpperCase (trim (filterSearch c))"

definition searchFilter :: "controls \<Rightarrow> opportunity list \<Rightarrow> opportunity list" where
  "searchFilter c data =
     (let search = searchTerm c in
      if search \<noteq> [] then
        filter (\<lambda>d. includesStr (toUpperCase (str_or (currency d) [])) search) data
      else data)"

definition isAvailable :: "opportunity \<Rightarrow> bool" where
  "isAvailable d = (available d = Some True \<or> status d = Some status_available)"

definition isUnavailable :: "opportunity \<Rightarrow> bool" where
  "isUnavailable d = (available d = Some False \<or> status d = Some status_not_available)"

definition availFilter :: "controls \<Rightarrow> opportunity list \<Rightarrow> opportunity list" where
  "availFilter c data =
     (let avail = filterAvailable c in
      if avail = ''available'' then filter isAvailable data
      else if avail = ''unavailable'' then filter isUnavailable data
      else data)"

text \<open>The four filters in the order the function applies them.\<close>

definition applyFilters :: "variant \<Rightarrow> controls \<Rightarrow> opportunity list \<Rightarrow> opportunity list" where
  "applyFilters v c data = availFilter c (searchFilter c (aprFilter c (sourceFilter v c data)))"

section \<open>Sorting\<close>

text \<open>
  The sort column is read dynamically, \<^verbatim>\<open>a[state.sortCol]\<close>, so the read can produce a number,
  a string, a boolean or undefined. Column names come from the page's table header.
\<close>

datatype jsval = JUndefined | JNum rat | JStr string | JBool bool

definition optval :: "('a \<Rightarrow> jsval) \<Rightarrow> 'a option \<Rightarrow> jsval" where
  "optval f x = (case x of None \<Rightarrow> JUndefined | Some v \<Rightarrow> f v)"

definition getprop :: "opportunity \<Rightarrow> string \<Rightarrow> jsval" where
  "getprop d k =
     (if k = ''currency'' then optval JStr (currency d)
      else if k = ''gate_apr'' then optval JNum (gate_apr d)
      else if k = ''okx_loan_rate'' then optval JNum (okx_loan_rate d)
      else if k = ''binance_loan_rate'' then optval JNum (binance_loan_rate d)
      else if k = ''net_apr'' then optval JNum (net_apr d)
      else if k = ''effective_ev'' then optval JNum (effective_ev d)
      else if k = ''gate_wd_fee_usd'' then optval JNum (gate_wd_fee_usd d)
      else if k = ''best_loan_source'' then optval JStr (best_loan_source d)
      else if k = ''available'' then optval JBool (available d)
      else if k = ''status'' then optval JStr (status d)
      else if k = ''okx_avail_loan'' then optval JNum (okx_avail_loan d)
      else JUndefined)"

text \<open>\<^verbatim>\<open>v ?? d\<close>: only undefined and null are replaced.\<close>

definition nullish_or :: "jsval \<Rightarrow> jsval \<Rightarrow> jsval" where
  "nullish_or v d = (case v of JUndefined \<Rightarrow> d | _ \<Rightarrow> v)"

text \<open>
  Built-ins of the host that the script calls and whose tables are not part of the
  repository: the locale's collation, the string-to-number and number-to-string
  conversions, and the formatting and parsing of dates. They are parameters of the model.
\<close>

record platform =
  localeCompare :: "string \<Rightarrow> string \<Rightarrow> int"
  stringToNumber :: "string \<Rightarrow> rat option"
  numberToString :: "rat \<Rightarrow> string"
  toLocaleTimeString :: "string \<Rightarrow> string"
  intToLocaleString :: "int \<Rightarrow> string"
  dateValue :: "string \<Rightarrow> rat option"

text \<open>ToNumber; \<open>None\<close> is NaN.\<close>

definition toNumber :: "platform \<Rightarrow> jsval \<Rightarrow> rat option" where
  "toNumber pf v = (case v of
       JUndefined \<Rightarrow> None
     | JNum r \<Rightarrow> Some r
     | JStr s \<Rightarrow> stringToNumber pf s
     | JBool b \<Rightarrow> Some (if b then 1 else 0))"

definition toString :: "platform \<Rightarrow> jsval \<Rightarrow> string" where
  "toString pf v = (case v of
       JUndefined \<Rightarrow> ''undefined''
     | JNum r \<Rightarrow> numberToString pf r
     | JStr s \<Rightarrow> s
     | JBool b \<Rightarrow> (if b then ''true'' else ''false''))"

text \<open>\<^verbatim>\<open>x - y\<close>, with NaN as \<open>None\<close>.\<close>

definition js_minus :: "platform \<Rightarrow> jsval \<Rightarrow> jsval \<Rightarrow> rat option" where
  "js_minus pf x y = (case (toNumber pf x, toNumber pf y) of
       (Some a, Some b) \<Rightarrow> Some (a - b)
     | _ \<Rightarrow> None)"

text \<open>
  The comparator passed to \<^verbatim>\<open>data.sort\<close>. When the left value is a string and the order is
  descending, the call \<^verbatim>\<open>vb.localeCompare(va)\<close> is a TypeError unless the right value is a
  string too. A NaN result counts as \<open>0\<close>, as the sort specifies.
\<close>

definition sortCompare ::
  "platform \<Rightarrow> string \<Rightarrow> bool \<Rightarrow> opportunity \<Rightarrow> opportunity \<Rightarrow> js_error + rat" where
  "sortCompare pf col asc a b =
     (let va = nullish_or (getprop a col) (JNum 0);
          vb = nullish_or (getprop b col) (JNum 0)
      in case va of
           JStr s \<Rightarrow>
             (if asc then Inr (of_int (localeCompare pf s (toString pf vb)))
              else (case vb of
                      JStr t \<Rightarrow> Inr (of_int (localeCompare pf t s))
                    | _ \<Rightarrow> Inl TypeError))
         | _ \<Rightarrow>
             (case (if asc then js_minus pf va vb else js_minus pf vb va) of
                None \<Rightarrow> Inr 0
              | Some r \<Rightarrow> Inr r))"

text \<open>
  \<^verbatim>\<open>Array.prototype.sort\<close> is stable, and for a comparator that is consistent on the
  elements its result is determined: the stable sorted arrangement, which insertion from
  the right computes. An exception of the comparator ends the sort. Where the comparator
  is not consistent the language leaves the order to the engine; the results below are
  stated for columns on which it is consistent.
\<close>

fun insert_sorted :: "('a \<Rightarrow> 'a \<Rightarrow> js_error + rat) \<Rightarrow> 'a \<Rightarrow> 'a list \<Rightarrow> js_error + 'a list" where
  "insert_sorted cmp x [] = Inr [x]"
| "insert_sorted cmp x (y # ys) =
     (case cmp x y of
        Inl e \<Rightarrow> Inl e
      | Inr r \<Rightarrow>
          if r \<le> 0 then Inr (x # y # ys)
          else (case insert_sorted cmp x ys of
                  Inl e \<Rightarrow> Inl e
                | Inr zs \<Rightarrow> Inr (y # zs)))"

fun js_sort :: "('a \<Rightarrow> 'a \<Rightarrow> js_error + rat) \<Rightarrow> 'a list \<Rightarrow> js_error + 'a list" where
  "js_sort cmp [] = Inr []"
| "js_sort cmp (x # xs) =
     (case js_sort cmp xs of
        Inl e \<Rightarrow> Inl e
      | Inr ys \<Rightarrow> insert_sorted cmp x ys)"

section \<open>Formatting\<close>

definition digitChar :: "nat \<Rightarrow> char" where
  "digitChar n = ''0123456789'' ! n"

fun natToString :: "nat \<Rightarrow> string" where
  "natToString n =
     (if n < 10 then [digitChar n] else natToString (n div 10) @ [digitChar (n mod 10)])"

declare natToString.simps [simp del]

text \<open>
  \<^verbatim>\<open>x.toFixed(2)\<close>: the sign is split off, the magnitude is rounded to the nearest hundredth
  (the larger one on a tie) and printed with two decimals. (A double of magnitude
  \<open>10\<^sup>2\<^sup>1\<close> or more prints in exponent notation instead; rates and fees are far below.)
\<close>

definition toFixed2 :: "rat \<Rightarrow> string" where
  "toFixed2 x =
     (let n = nat \<lfloor>\<bar>x\<bar> * 100 + 1 / 2\<rfloor> in
      (if x < 0 then ''-'' else []) @ natToString (n div 100) @ ''.'' @
      [digitChar (n mod 100 div 10), digitChar (n mod 10)])"

definition dash :: string where
  "dash = [CHR 0xE2, CHR 0x80, CHR 0x94]"

text \<open>\<^verbatim>\<open>window.fmt\<close>: a dash for undefined, null and NaN, two decimals otherwise.\<close>

definition fmt :: "rat option \<Rightarrow> string" where
  "fmt val = (case val of None \<Rightarrow> dash | Some num \<Rightarrow> toFixed2 num)"

text \<open>\<^verbatim>\<open>window.fmtInt\<close>: \<^verbatim>\<open>parseInt(val, 10).toLocaleString()\<close>; parseInt truncates.\<close>

definition fmtInt :: "platform \<Rightarrow> rat option \<Rightarrow> string" where
  "fmtInt pf val = (case val of
       None \<Rightarrow> dash
     | Some num \<Rightarrow> intToLocaleString pf (if num < 0 then - \<lfloor>- num\<rfloor> else \<lfloor>num\<rfloor>))"

definition replaceAll :: "char \<Rightarrow> string \<Rightarrow> string \<Rightarrow> string" where
  "replaceAll c r s = concat (map (\<lambda>x. if x = c then r else [x]) s)"

definition esc :: "string \<Rightarrow> string" where
  "esc str =
     (if str = [] then []
      else replaceAll (CHR 0x27) ''&#039;''
            (replaceAll (CHR 0x22) ''&quot;''
              (replaceAll CHR ''>'' ''&gt;''
                (replaceAll CHR ''<'' ''&lt;''
                  (replaceAll CHR ''&'' ''&amp;'' str)))))"

definition sourceClass :: "string \<Rightarrow> string" where
  "sourceClass source =
     (if source = [] then []
      else let s = toLowerCase source in
        if includesStr s ''gate'' then ''source-gate''
        else if includesStr s ''okx'' then ''source-okx''
        else if includesStr s ''binance'' then ''source-binance''
        else [])"

section \<open>Table rendering\<close>

text \<open>
  The demo signal of \<open>Current\<close>: a 32-bit string hash; \<^verbatim>\<open>|0\<close> wraps after every step.
\<close>

definition hashStep :: "32 word \<Rightarrow> char \<Rightarrow> 32 word" where
  "hashStep a b = (push_bit 5 a - a) + of_nat (of_char b)"

definition hash :: "string \<Rightarrow> 32 word" where
  "hash token = foldl hashStep 0 token"

definition sigIndex :: "string \<Rightarrow> nat" where
  "sigIndex token = nat \<bar>sint (hash token)\<bar> mod 4"

text \<open>\<^verbatim>\<open>const loanSize = parseFloat(dom.filterLoanSize.value) || 1000\<close>\<close>

definition loanSize :: "controls \<Rightarrow> rat" where
  "loanSize c = num_or (filterLoanSize c) 1000"

definition dailyEarn :: "controls \<Rightarrow> opportunity \<Rightarrow> rat" where
  "dailyEarn c d = (num_or (net_apr d) 0 / 100 / 365) * loanSize c"

definition borrowRate :: "opportunity \<Rightarrow> rat" where
  "borrowRate d =
     (let source = str_or (best_loan_source d) ''None'' in
      if includesStr (toLowerCase source) ''okx'' then num_or (okx_loan_rate d) 0
      else if includesStr (toLowerCase source) ''binance'' then num_or (binance_loan_rate d) 0
      else 0)"

text \<open>A rendered row, as the parts of its cells that vary from row to row.\<close>

record row =
  cell_token :: string
  cell_signal :: nat
  cell_gate_apr :: string
  cell_borrow :: string
  cell_wd_fee :: string
  cell_net_apr :: string
  cell_daily :: string
  cell_ev :: string
  cell_source :: string
  cell_source_class :: string
  cell_max_loan :: string
  cell_status :: bool

record legacy_row =
  lcell_token :: string
  lcell_gate_apr :: string
  lcell_okx :: string
  lcell_binance :: string
  lcell_net_apr :: string
  lcell_source :: string
  lcell_max_loan :: string
  lcell_status :: bool

text \<open>
  One row of \<open>Current\<close>. \<^verbatim>\<open>hash(d.currency)\<close> calls \<^verbatim>\<open>split\<close> on the currency, which is a
  TypeError when the currency is missing.
\<close>

definition renderRow :: "platform \<Rightarrow> controls \<Rightarrow> opportunity \<Rightarrow> js_error + row" where
  "renderRow pf c d =
     (let netApr = num_or (net_apr d) 0;
          gateApr = num_or (gate_apr d) 0;
          maxLoan = num_or (okx_avail_loan d) 0;
          source = str_or (best_loan_source d) ''None'';
          effEv = num_or (effective_ev d) 0;
          gateWd = num_or (gate_wd_fee_usd d) 0
      in case currency d of
           None \<Rightarrow> Inl TypeError
         | Some token \<Rightarrow> Inr
            \<lparr> cell_token = esc (str_or (currency d) dash),
              cell_signal = sigIndex token,
              cell_gate_apr = fmt (Some gateApr),
              cell_borrow = (if borrowRate d > 0 then fmt (Some (borrowRate d)) else dash),
              cell_wd_fee = fmt (Some gateWd),
              cell_net_apr = fmt (Some netApr),
              cell_daily = fmt (Some (dailyEarn c d)),
              cell_ev = fmt (Some effEv),
              cell_source = source,
              cell_source_class = sourceClass source,
              cell_max_loan = (if maxLoan > 0 then fmtInt pf (Some maxLoan) else dash),
              cell_status = isAvailable d \<rparr>)"

definition renderRowLegacy :: "platform \<Rightarrow> opportunity \<Rightarrow> legacy_row" where
  "renderRowLegacy pf d =
     (let netApr = num_or (net_apr d) 0;
          gateApr = num_or (gate_apr d) 0;
          okxRate = num_or (okx_loan_rate d) 0;
          binanceRate = num_or (binance_loan_rate d) 0;
          maxLoan = num_or (okx_avail_loan d) 0;
          source = str_or (best_loan_source d) ''None''
      in \<lparr> lcell_token = esc (str_or (currency d) dash),
           lcell_gate_apr = fmt (Some gateApr),
           lcell_okx = (if okxRate > 0 then fmt (Some okxRate) else dash),
           lcell_binance = (if binanceRate > 0 then fmt (Some binanceRate) else dash),
           lcell_net_apr = fmt (Some netApr),
           lcell_source = source,
           lcell_max_loan = (if maxLoan > 0 then fmtInt pf (Some maxLoan) else dash),
           lcell_status = isAvailable d \<rparr>)"

text \<open>\<^verbatim>\<open>data.map(...)\<close> inside \<^verbatim>\<open>try\<close>: the first row that throws ends the map.\<close>

fun mapRows :: "('a \<Rightarrow> js_error + 'b) \<Rightarrow> 'a list \<Rightarrow> js_error + 'b list" where
  "mapRows f [] = Inr []"
| "mapRows f (x # xs) =
     (case f x of
        Inl e \<Rightarrow> Inl e
      | Inr y \<Rightarrow> (case mapRows f xs of Inl e \<Rightarrow> Inl e | Inr ys \<Rightarrow> Inr (y # ys)))"

text \<open>
  What the table body shows: the placeholder row for an empty list, the rows, or the
  inline error row that the \<^verbatim>\<open>catch\<close> of renderTable writes.
\<close>

datatype table = Placeholder | Rows "row list" | LegacyRows "legacy_row list" | RenderError

definition renderTable :: "variant \<Rightarrow> platform \<Rightarrow> controls \<Rightarrow> opportunity list \<Rightarrow> table" where
  "renderTable v pf c data =
     (if data = [] then Placeholder
      else case v of
             Current \<Rightarrow> (case mapRows (renderRow pf c) data of
                           Inl e \<Rightarrow> RenderError
                         | Inr rows \<Rightarrow> Rows rows)
           | Legacy \<Rightarrow> LegacyRows (map (renderRowLegacy pf) data))"

section \<open>Application state\<close>

datatype ready_state = CONNECTING | OPEN | CLOSING | CLOSED

datatype ws_pill = Connecting | Live | Disconnected | ErrorPill

text \<open>
  The global \<^verbatim>\<open>state\<close> object, the page elements the script writes (\<open>dom_\<close>), and a log of
  the effects it issues: reconnect timers with their delays, frames sent on the socket,
  REST requests, and errors caught and written to the console. A property that is not
  set on \<^verbatim>\<open>state\<close> (undefined) is \<open>None\<close>. The page elements are taken to exist.
\<close>

record app_state =
  data :: "opportunity list"
  filtered :: "opportunity list"
  sortCol :: string
  sortAsc :: bool
  ws :: "ready_state option"
  wsRetries :: "nat option"
  maxWsRetries :: "nat option"
  lastUpdate :: "string option"
  pingInterval :: bool
  dom_controls :: controls
  dom_filteredCount :: nat
  dom_tbody :: table
  dom_dataStatus :: nat
  dom_wsStatus :: ws_pill
  dom_kpiBestApr :: string
  dom_kpiOppsCount :: string
  dom_kpiLastUpdate :: string
  dom_kpiAvgApr :: string
  dom_kpiHigh :: string
  timers :: "rat list"
  wsSent :: "string list"
  requests :: "string list"
  console :: "js_error list"

text \<open>
  A handler either runs to its end or is cut short by an exception; in both cases the
  writes it has made so far stay.
\<close>

datatype 's outcome = Done 's | Threw js_error 's

section \<open>applyFiltersAndRender\<close>

definition applyFiltersAndRender :: "variant \<Rightarrow> platform \<Rightarrow> app_state \<Rightarrow> app_state outcome" where
  "applyFiltersAndRender v pf s =
     (case js_sort (sortCompare pf (sortCol s) (sortAsc s))
             (applyFilters v (dom_controls s) (data s)) of
        Inl e \<Rightarrow> Threw e s
      | Inr rows \<Rightarrow>
          Done (s\<lparr> filtered := rows,
                   dom_filteredCount := length rows,
                   dom_tbody := renderTable v pf (dom_controls s) rows \<rparr>))"

section \<open>KPI updates\<close>

text \<open>\<^verbatim>\<open>Math.max(...xs)\<close> on a non-empty argument list.\<close>

fun math_max :: "rat list \<Rightarrow> rat" where
  "math_max [] = 0"
| "math_max (x # xs) = fold max xs x"

definition netAprs :: "app_state \<Rightarrow> rat list" where
  "netAprs s = map (\<lambda>d. num_or (net_apr d) 0) (data s)"

definition topApr :: "app_state \<Rightarrow> rat" where
  "topApr s = math_max (netAprs s)"

text \<open>
  \<^verbatim>\<open>if (state.lastUpdate) { ... new Date(state.lastUpdate).toLocaleTimeString() }\<close>: a
  missing or empty timestamp is falsy.
\<close>

definition updateTime :: "platform \<Rightarrow> app_state \<Rightarrow> app_state" where
  "updateTime pf s = (case lastUpdate s of
       None \<Rightarrow> s
     | Some t \<Rightarrow> if t = [] then s else s\<lparr> dom_kpiLastUpdate := toLocaleTimeString pf t \<rparr>)"

text \<open>
  \<open>Legacy\<close> also shows the average and the number of rates above 50; \<open>Current\<close> has these
  two lines commented out. The two copies name the KPI elements differently
  (\<^verbatim>\<open>kpi-best-apr\<close> and \<^verbatim>\<open>kpi-top-apr\<close>, and so on); the model holds one component per KPI.
\<close>

definition updateKPIs :: "variant \<Rightarrow> platform \<Rightarrow> app_state \<Rightarrow> app_state" where
  "updateKPIs v pf s =
     (if data s = [] then s
      else case v of
        Current \<Rightarrow>
          updateTime pf
            (s\<lparr> dom_kpiOppsCount := natToString (length (data s)),
                dom_kpiBestApr := fmt (Some (topApr s)) @ ''%'' \<rparr>)
      | Legacy \<Rightarrow>
          updateTime pf
            (s\<lparr> dom_kpiOppsCount := natToString (length (data s)),
                dom_kpiBestApr := fmt (Some (topApr s)) @ ''%'',
                dom_kpiAvgApr :=
                  fmt (Some (foldl (+) 0 (netAprs s) / of_nat (length (netAprs s)))) @ ''%'',
                dom_kpiHigh := natToString (length (filter (\<lambda>a. a > 50) (netAprs s))) \<rparr>))"

section \<open>Data handling\<close>

text \<open>A pushed or pulled envelope: \<^verbatim>\<open>{data, timestamp}\<close>.\<close>

record message =
  msg_data :: "opportunity list option"
  msg_timestamp :: "string option"

text \<open>
  handleDataUpdate replaces the cached snapshot, then renders, then updates the KPIs.
  (It also flashes the status pill and refills the two token selectors of the bot panels;
  these touch nothing the model holds.)
\<close>

definition handleDataUpdate :: "variant \<Rightarrow> platform \<Rightarrow> message \<Rightarrow> app_state \<Rightarrow> app_state outcome" where
  "handleDataUpdate v pf msg s =
     (let s1 = s\<lparr> data := (case msg_data msg of None \<Rightarrow> [] | Some xs \<Rightarrow> xs),
                    lastUpdate := msg_timestamp msg \<rparr>;
          s2 = s1\<lparr> dom_dataStatus := length (data s1) \<rparr>
      in case applyFiltersAndRender v pf s2 of
           Threw e s3 \<Rightarrow> Threw e s3
         | Done s3 \<Rightarrow> Done (updateKPIs v pf s3))"

text \<open>\<^verbatim>\<open>try { ... } catch (err) { console.error(...) }\<close>\<close>

definition catch_log :: "app_state outcome \<Rightarrow> app_state" where
  "catch_log r = (case r of
       Done s \<Rightarrow> s
     | Threw e s \<Rightarrow> s\<lparr> console := console s @ [e] \<rparr>)"

section \<open>WebSocket handlers\<close>


definition onopen :: "app_state \<Rightarrow> app_state" where
  "onopen s = s\<lparr> ws := Some OPEN, wsRetries := Some 0, dom_wsStatus := Live,
                 pingInterval := True \<rparr>"


text \<open>\<^verbatim>\<open>Math.min(1000 * Math.pow(1.5, retries), 30000)\<close>\<close>

definition backoffDelay :: "nat \<Rightarrow> rat" where
  "backoffDelay retries = min (1000 * (3 / 2) ^ retries) 30000"

text \<open>
  onclose. The comparison \<^verbatim>\<open>state.wsRetries < state.maxWsRetries\<close> is false when either
  side is undefined.
\<close>

definition onclose :: "app_state \<Rightarrow> app_state" where
  "onclose s =
     (let s1 = s\<lparr> pingInterval := False, ws := None, dom_wsStatus := Disconnected \<rparr>
      in case (wsRetries s1, maxWsRetries s1) of
           (Some r, Some m) \<Rightarrow>
             if r < m
             then s1\<lparr> wsRetries := Some (r + 1), timers := timers s1 @ [backoffDelay r] \<rparr>
             else s1
         | _ \<Rightarrow> s1)"

definition onerror :: "app_state \<Rightarrow> app_state" where
  "onerror s = s\<lparr> dom_wsStatus := ErrorPill \<rparr>"

text \<open>
  The \<^verbatim>\<open>state\<close> literal at load, over a page \<open>p\<close>. \<open>Legacy\<close> declares
  \<^verbatim>\<open>wsRetries: 0, maxWsRetries: 50\<close>; \<open>Current\<close> declares neither field.
\<close>

definition init_state :: "variant \<Rightarrow> app_state \<Rightarrow> app_state" where
  "init_state v p =
     p\<lparr> data := [], filtered := [], sortCol := ''net_apr'', sortAsc := False, ws := None,
        wsRetries := (case v of Current \<Rightarrow> None | Legacy \<Rightarrow> Some 0),
        maxWsRetries := (case v of Current \<Rightarrow> None | Legacy \<Rightarrow> Some 50),
        lastUpdate := None, pingInterval := False \<rparr>"

section \<open>REST fallback, sorting and filter listeners\<close>







section \<open>Refresh button\<close>

text \<open>
  The replies of the two REST calls the click listener can make: a rejected promise, or
  the \<^verbatim>\<open>status\<close> field of the refresh reply and the envelope of the opportunities reply.
\<close>

record rest_replies =
  refresh_reply :: "js_error + string option"
  opportunities_reply :: "js_error + message"

text \<open>
  The body of the listener's \<^verbatim>\<open>try\<close>. In \<open>Current\<close> the branch for an open socket starts
  with \<^verbatim>\<open>await res.json()\<close>, where no \<^verbatim>\<open>res\<close> is in scope, and there is no other branch.
\<close>

definition refreshBody ::
  "variant \<Rightarrow> platform \<Rightarrow> rest_replies \<Rightarrow> app_state \<Rightarrow> app_state outcome" where
  "refreshBody v pf rp s = (case v of
       Legacy \<Rightarrow>
         if ws s = Some OPEN then Done (s\<lparr> wsSent := wsSent s @ [''refresh''] \<rparr>)
         else
           (let s1 = s\<lparr> requests := requests s @ [''POST /api/refresh''] \<rparr> in
            case refresh_reply rp of
              Inl e \<Rightarrow> Threw e s1
            | Inr st \<Rightarrow>
                if st = Some ''ok'' then
                  (let s2 = s1\<lparr> requests := requests s1 @ [''GET /api/opportunities''] \<rparr> in
                   case opportunities_reply rp of
                     Inl e \<Rightarrow> Threw e s2
                   | Inr dataJson \<Rightarrow> handleDataUpdate v pf dataJson s2)
                else Done s1)
     | Current \<Rightarrow>
         if ws s = Some OPEN then Threw ReferenceError s else Done s)"

definition refreshClick ::
  "variant \<Rightarrow> platform \<Rightarrow> rest_replies \<Rightarrow> app_state \<Rightarrow> app_state" where
  "refreshClick v pf rp s = catch_log (refreshBody v pf rp s)"

section \<open>Chart on demand\<close>

record point =
  pt_timestamp :: string
  pt_net_apr :: "rat option"
  pt_gate_apr :: "rat option"
  pt_borrow_rate :: "rat option"

record trend_info =
  trend_dir :: string
  trend_strength :: string

text \<open>
  The parsed reply of \<^verbatim>\<open>/api/history/{token}\<close>: null, a bare array, or an object with the
  optional properties \<^verbatim>\<open>data\<close> and \<^verbatim>\<open>trend\<close>.
\<close>

datatype history_json =
    HNull
  | HArray "point list"
  | HObject "point list option" "trend_info option"

datatype chart = Chart "point list"

record chart_title =
  title_token :: string
  title_trend :: "trend_info option"
  title_error :: bool

record chart_ui =
  chartInstance :: "chart option"
  modal_present :: bool
  modal_visible :: bool
  title :: chart_title
  alerts :: "string list"
  destroyed :: "chart list"
  history_requests :: "string list"
  chart_console :: "js_error list"

text \<open>\<^verbatim>\<open>!data || data.length === 0\<close>: an object has no \<^verbatim>\<open>length\<close>.\<close>

definition noHistory :: "history_json \<Rightarrow> bool" where
  "noHistory d = (case d of HNull \<Rightarrow> True | HArray ps \<Rightarrow> ps = [] | HObject ps t \<Rightarrow> False)"

definition history_trend :: "history_json \<Rightarrow> trend_info option" where
  "history_trend d = (case d of HObject ps t \<Rightarrow> t | _ \<Rightarrow> None)"

definition history_data :: "history_json \<Rightarrow> point list option" where
  "history_data d = (case d of HObject ps t \<Rightarrow> ps | _ \<Rightarrow> None)"

definition dateCompare :: "platform \<Rightarrow> point \<Rightarrow> point \<Rightarrow> js_error + rat" where
  "dateCompare pf a b =
     (case (dateValue pf (pt_timestamp a), dateValue pf (pt_timestamp b)) of
        (Some x, Some y) \<Rightarrow> Inr (x - y)
      | _ \<Rightarrow> Inr 0)"

definition renderChart :: "platform \<Rightarrow> point list option \<Rightarrow> chart_ui \<Rightarrow> chart_ui outcome" where
  "renderChart pf history u = (case history of
       None \<Rightarrow> Threw TypeError u
     | Some h \<Rightarrow>
         (case js_sort (dateCompare pf) h of
            Inl e \<Rightarrow> Threw e u
          | Inr hs \<Rightarrow>
              if map pt_net_apr hs = [] then Done u
              else Done (u\<lparr> chartInstance := Some (Chart hs) \<rparr>)))"

definition chartBody ::
  "platform \<Rightarrow> string \<Rightarrow> js_error + history_json \<Rightarrow> chart_ui \<Rightarrow> chart_ui outcome" where
  "chartBody pf token reply u = (case reply of
       Inl e \<Rightarrow> Threw e u
     | Inr d \<Rightarrow>
         if noHistory d then
           Done (u\<lparr> alerts := alerts u @ [''No history data available for this token yet.''] \<rparr>)
         else
           (let u1 = (case history_trend d of
                        None \<Rightarrow> u
                      | Some t \<Rightarrow> u\<lparr> title := (title u)\<lparr> title_trend := Some t \<rparr> \<rparr>)
            in renderChart pf (history_data d) u1))"

text \<open>
  openChartModal, with the reply of its one request as an argument. The canvas and the
  title element are taken to exist; the modal is checked by the function itself.
\<close>

definition openChartModal ::
  "platform \<Rightarrow> string \<Rightarrow> js_error + history_json \<Rightarrow> chart_ui \<Rightarrow> chart_ui" where
  "openChartModal pf token reply u =
     (if \<not> modal_present u then u
      else
        let u1 = u\<lparr> title := \<lparr> title_token = token, title_trend = None, title_error = False \<rparr>,
                      modal_visible := True \<rparr>;
            u2 = (case chartInstance u1 of
                    None \<Rightarrow> u1
                  | Some ch \<Rightarrow> u1\<lparr> destroyed := destroyed u1 @ [ch], chartInstance := None \<rparr>);
            u3 = u2\<lparr> history_requests := history_requests u2 @ [''/api/history/'' @ token] \<rparr>
        in case chartBody pf token reply u3 of
             Done u4 \<Rightarrow> u4
           | Threw e u4 \<Rightarrow>
               u4\<lparr> chart_console := chart_console u4 @ [e],
                    title := (title u4)\<lparr> title_error := True \<rparr> \<rparr>)"

section \<open>Notions used to state the properties\<close>

subsection \<open>The filter predicates\<close>

text \<open>
  The four predicates of the filter, each written as "if the control is active, the row
  matches": a control at its no-constraint value makes the predicate true of every row.
\<close>

definition sourcePredicate :: "variant \<Rightarrow> controls \<Rightarrow> opportunity \<Rightarrow> bool" where
  "sourcePredicate v c d =
     ((filterSource c = ''okx'' \<longrightarrow> okxMatch v d) \<and>
      (filterSource c = ''binance'' \<longrightarrow> binanceMatch v d))"

definition aprPredicate :: "controls \<Rightarrow> opportunity \<Rightarrow> bool" where
  "aprPredicate c d = (minApr c \<noteq> 0 \<longrightarrow> minApr c \<le> num_or (net_apr d) 0)"

definition searchPredicate :: "controls \<Rightarrow> opportunity \<Rightarrow> bool" where
  "searchPredicate c d =
     (searchTerm c \<noteq> [] \<longrightarrow> includesStr (toUpperCase (str_or (currency d) [])) (searchTerm c))"

definition availPredicate :: "controls \<Rightarrow> opportunity \<Rightarrow> bool" where
  "availPredicate c d =
     ((filterAvailable c = ''available'' \<longrightarrow> isAvailable d) \<and>
      (filterAvailable c = ''unavailable'' \<longrightarrow> isUnavailable d))"

definition passesFilters :: "variant \<Rightarrow> controls \<Rightarrow> opportunity \<Rightarrow> bool" where
  "passesFilters v c d =
     (sourcePredicate v c d \<and> aprPredicate c d \<and> searchPredicate c d \<and> availPredicate c d)"

subsection \<open>Sort keys\<close>







subsection \<open>The sort without exceptions\<close>



fun ins_le :: "('a \<Rightarrow> 'a \<Rightarrow> bool) \<Rightarrow> 'a \<Rightarrow> 'a list \<Rightarrow> 'a list" where
  "ins_le le x [] = [x]"
| "ins_le le x (y # ys) = (if le x y then x # y # ys else y # ins_le le x ys)"

fun isort_le :: "('a \<Rightarrow> 'a \<Rightarrow> bool) \<Rightarrow> 'a list \<Rightarrow> 'a list" where
  "isort_le le [] = []"
| "isort_le le (x # xs) = ins_le le x (isort_le le xs)"

subsection \<open>Events\<close>




text \<open>The state a handler leaves behind, whether it ended or threw.\<close>

definition final_state :: "'s outcome \<Rightarrow> 's" where
  "final_state r = (case r of Done s \<Rightarrow> s | Threw e s \<Rightarrow> s)"

text \<open>\<open>n\<close> disconnects in a row, with no open in between.\<close>

definition disconnects :: "nat \<Rightarrow> app_state \<Rightarrow> app_state" where
  "disconnects n s = (onclose ^^ n) s"

subsection \<open>Example data\<close>

definition host :: platform where
  "host = \<lparr> localeCompare = (\<lambda>s t. int (length s) - int (length t)),
            stringToNumber = (\<lambda>s. None),
            numberToString = (\<lambda>r. ''0''),
            toLocaleTimeString = (\<lambda>t. t),
            intToLocaleString = (\<lambda>i. natToString (nat i)),
            dateValue = (\<lambda>s. None) \<rparr>"

definition blank :: opportunity where
  "blank = \<lparr> currency = None, gate_apr = None, okx_loan_rate = None, binance_loan_rate = None,
     net_apr = None, effective_ev = None, gate_wd_fee_usd = None, best_loan_source = None,
     available = None, status = None, okx_avail_loan = None \<rparr>"

definition eth :: opportunity where
  "eth = blank\<lparr> currency := Some ''ETH'', net_apr := Some 60, gate_apr := Some 55,
     available := Some True \<rparr>"

definition btc :: opportunity where
  "btc = blank\<lparr> currency := Some ''BTC'', net_apr := Some 10, available := Some False \<rparr>"


definition no_filters :: controls where
  "no_filters = \<lparr> filterSource = ''all'', filterApr = None, filterLoanSize = None,
     filterSearch = [], filterAvailable = ''all'' \<rparr>"

definition page :: app_state where
  "page = \<lparr> data = [], filtered = [], sortCol = ''net_apr'', sortAsc = False, ws = None,
     wsRetries = None, maxWsRetries = None, lastUpdate = None, pingInterval = False,
     dom_controls = no_filters, dom_filteredCount = 0, dom_tbody = Placeholder,
     dom_dataStatus = 0, dom_wsStatus = Connecting, dom_kpiBestApr = ''--'',
     dom_kpiOppsCount = ''--'', dom_kpiLastUpdate = ''--'', dom_kpiAvgApr = ''--'',
     dom_kpiHigh = ''--'', timers = [], wsSent = [], requests = [], console = [] \<rparr>"




definition search_btc :: app_state where
  "search_btc = page\<lparr> data := [eth, btc], dom_controls := no_filters\<lparr> filterSearch := ''btc'' \<rparr> \<rparr>"

definition after_eth :: app_state where
  "after_eth = page\<lparr> data := [eth], filtered := [eth], dom_filteredCount := 1,
     dom_tbody := renderTable Current host no_filters [eth], dom_dataStatus := 1,
     lastUpdate := Some ''12:00'', dom_kpiBestApr := ''60.00%'', dom_kpiOppsCount := ''1'',
     dom_kpiLastUpdate := ''12:00'' \<rparr>"

definition empty_update :: message where
  "empty_update = \<lparr> msg_data = Some [], msg_timestamp = Some ''12:05'' \<rparr>"






definition legacy_start :: app_state where
  "legacy_start = init_state Legacy page"

definition legacy_exhausted :: app_state where
  "legacy_exhausted = legacy_start\<lparr> wsRetries := Some 50 \<rparr>"


section \<open>Lemmas\<close>

subsection \<open>Insertion sort over a comparator\<close>

lemma set_ins_le [simp]: "set (ins_le le x ys) = insert x (set ys)"
  by (induction ys) auto

lemma mset_ins_le [simp]: "mset (ins_le le x ys) = add_mset x (mset ys)"
  by (induction ys) auto

lemma mset_isort_le [simp]: "mset (isort_le le xs) = mset xs"
  by (induction xs) auto

lemma set_isort_le [simp]: "set (isort_le le xs) = set xs"
  by (induction xs) auto













subsection \<open>The comparator on homogeneous columns\<close>












subsection \<open>The filter stage\<close>

lemma sourceFilter_eq: "sourceFilter v c xs = filter (sourcePredicate v c) xs"
  by (simp add: sourceFilter_def sourcePredicate_def [abs_def] Let_def)

lemma aprFilter_eq: "aprFilter c xs = filter (aprPredicate c) xs"
  by (simp add: aprFilter_def aprPredicate_def [abs_def])

lemma searchFilter_eq: "searchFilter c xs = filter (searchPredicate c) xs"
  by (simp add: searchFilter_def searchPredicate_def [abs_def] Let_def)

lemma availFilter_eq: "availFilter c xs = filter (availPredicate c) xs"
  by (simp add: availFilter_def availPredicate_def [abs_def] Let_def)

lemma applyFilters_eq: "applyFilters v c xs = filter (passesFilters v c) xs"
  unfolding applyFilters_def sourceFilter_eq aprFilter_eq searchFilter_eq availFilter_eq
  by (auto simp: passesFilters_def intro: filter_cong)




lemma applyFiltersAndRender_Done:
  "applyFiltersAndRender v pf s = Done s' \<longleftrightarrow>
     (\<exists>rows. js_sort (sortCompare pf (sortCol s) (sortAsc s))
                (applyFilters v (dom_controls s) (data s)) = Inr rows \<and>
             s' = s\<lparr> filtered := rows, dom_filteredCount := length rows,
                      dom_tbody := renderTable v pf (dom_controls s) rows \<rparr>)"
  by (auto simp: applyFiltersAndRender_def split: sum.splits)



subsection \<open>Evaluating the formatter\<close>

lemma natToString_digit: "n < 10 \<Longrightarrow> natToString n = [digitChar n]"
  by (simp add: natToString.simps)

lemma natToString_step:
  "10 \<le> n \<Longrightarrow> natToString n = natToString (n div 10) @ [digitChar (n mod 10)]"
  by (subst natToString.simps) simp

lemma floor_rat_numeral_div: "\<lfloor>(numeral a :: rat) / numeral b\<rfloor> = numeral a div numeral b"
  using floor_divide_of_int_eq [of "numeral a" "numeral b", where ?'a = rat] by simp

lemmas toFixed2_eval = toFixed2_def Let_def natToString_digit natToString_step digitChar_def
  floor_rat_numeral_div

subsection \<open>KPI updates\<close>

lemma math_max_Max: "xs \<noteq> [] \<Longrightarrow> math_max xs = Max (set xs)"
  by (cases xs) (simp_all add: Max.set_eq_fold del: set_simps)

lemma updateTime_kpi [simp]:
  "dom_kpiBestApr (updateTime pf s) = dom_kpiBestApr s"
  "dom_kpiOppsCount (updateTime pf s) = dom_kpiOppsCount s"
  "dom_kpiAvgApr (updateTime pf s) = dom_kpiAvgApr s"
  "dom_kpiHigh (updateTime pf s) = dom_kpiHigh s"
  by (simp_all add: updateTime_def split: option.splits)

lemma kpiBestApr_updateKPIs:
  "data s \<noteq> [] \<Longrightarrow> dom_kpiBestApr (updateKPIs v pf s) = fmt (Some (topApr s)) @ ''%''"
  by (cases v) (simp_all add: updateKPIs_def)

lemma topApr_data: "data s = data t \<Longrightarrow> topApr s = topApr t"
  by (simp add: topApr_def netAprs_def)

lemma topApr_Max:
  assumes "data s \<noteq> []"
  shows "topApr s = Max ((\<lambda>d. num_or (net_apr d) 0) ` set (data s))"
proof -
  have "netAprs s \<noteq> []" using assms by (simp add: netAprs_def)
  then have "topApr s = Max (set (netAprs s))"
    unfolding topApr_def by (rule math_max_Max)
  then show ?thesis by (simp add: netAprs_def)
qed

lemma handleDataUpdate_Done_iff:
  "handleDataUpdate v pf msg s = Done s' \<longleftrightarrow>
     (\<exists>s3. applyFiltersAndRender v pf
            (s\<lparr> data := (case msg_data msg of None \<Rightarrow> [] | Some xs \<Rightarrow> xs),
                lastUpdate := msg_timestamp msg,
                dom_dataStatus := length (case msg_data msg of None \<Rightarrow> [] | Some xs \<Rightarrow> xs) \<rparr>)
            = Done s3 \<and> s' = updateKPIs v pf s3)"
  by (auto simp: handleDataUpdate_def Let_def split: outcome.splits)

lemma handleDataUpdate_Done:
  assumes "handleDataUpdate v pf msg s = Done s'"
  shows "\<exists>s3. s' = updateKPIs v pf s3
       \<and> data s3 = (case msg_data msg of None \<Rightarrow> [] | Some xs \<Rightarrow> xs)
       \<and> lastUpdate s3 = msg_timestamp msg
       \<and> dom_kpiBestApr s3 = dom_kpiBestApr s \<and> dom_kpiOppsCount s3 = dom_kpiOppsCount s
       \<and> dom_kpiLastUpdate s3 = dom_kpiLastUpdate s \<and> dom_kpiAvgApr s3 = dom_kpiAvgApr s
       \<and> dom_kpiHigh s3 = dom_kpiHigh s"
proof -
  from assms obtain s3 where a: "applyFiltersAndRender v pf
            (s\<lparr> data := (case msg_data msg of None \<Rightarrow> [] | Some xs \<Rightarrow> xs),
                lastUpdate := msg_timestamp msg,
                dom_dataStatus := length (case msg_data msg of None \<Rightarrow> [] | Some xs \<Rightarrow> xs) \<rparr>)
            = Done s3" and b: "s' = updateKPIs v pf s3"
    unfolding handleDataUpdate_Done_iff by blast
  from a obtain rows where "s3 = s\<lparr> data := (case msg_data msg of None \<Rightarrow> [] | Some xs \<Rightarrow> xs),
                lastUpdate := msg_timestamp msg,
                dom_dataStatus := length (case msg_data msg of None \<Rightarrow> [] | Some xs \<Rightarrow> xs),
                filtered := rows, dom_filteredCount := length rows,
                dom_tbody := renderTable v pf (dom_controls s) rows \<rparr>"
    unfolding applyFiltersAndRender_Done by auto
  then have "data s3 = (case msg_data msg of None \<Rightarrow> [] | Some xs \<Rightarrow> xs)
       \<and> lastUpdate s3 = msg_timestamp msg
       \<and> dom_kpiBestApr s3 = dom_kpiBestApr s \<and> dom_kpiOppsCount s3 = dom_kpiOppsCount s
       \<and> dom_kpiLastUpdate s3 = dom_kpiLastUpdate s \<and> dom_kpiAvgApr s3 = dom_kpiAvgApr s
       \<and> dom_kpiHigh s3 = dom_kpiHigh s"
    by simp
  with b show ?thesis by blast
qed

lemma applyFilters_Nil [simp]: "applyFilters v c [] = []"
  by (simp add: applyFilters_eq)

lemma updateKPIs_empty: "data s = [] \<Longrightarrow> updateKPIs v pf s = s"
  by (simp add: updateKPIs_def)

subsection \<open>The comparator, row by row\<close>




subsection \<open>Events and the rendered table\<close>

lemma updateKPIs_frame [simp]:
  "data (updateKPIs v pf s) = data s"
  "filtered (updateKPIs v pf s) = filtered s"
  "sortCol (updateKPIs v pf s) = sortCol s"
  "sortAsc (updateKPIs v pf s) = sortAsc s"
  "dom_controls (updateKPIs v pf s) = dom_controls s"
  "dom_tbody (updateKPIs v pf s) = dom_tbody s"
  "dom_filteredCount (updateKPIs v pf s) = dom_filteredCount s"
  by (cases v; simp add: updateKPIs_def updateTime_def split: option.splits)+

















subsection \<open>Rows\<close>




subsection \<open>The pipeline on the example page\<close>




subsection \<open>Reconnects\<close>

lemma backoffDelay_cap: "backoffDelay k \<le> 30000"
  by (simp add: backoffDelay_def)

lemma backoffDelay_mono: "a \<le> b \<Longrightarrow> backoffDelay a \<le> backoffDelay b"
proof -
  assume "a \<le> b"
  then have "(3 / 2 :: rat) ^ a \<le> (3 / 2) ^ b"
    by (intro power_increasing) simp_all
  then show ?thesis by (simp add: backoffDelay_def min_le_iff_disj)
qed

lemma sorted_backoff: "sorted (map backoffDelay [a..<b])"
  by (simp add: sorted_map sorted_wrt_iff_nth_less backoffDelay_mono)

lemma onclose_retry:
  assumes "wsRetries s = Some r" "maxWsRetries s = Some m" "r < m"
  shows "timers (onclose s) = timers s @ [backoffDelay r]"
    and "wsRetries (onclose s) = Some (r + 1)" and "maxWsRetries (onclose s) = Some m"
  using assms by (simp_all add: onclose_def Let_def)

lemma onclose_stop:
  assumes "wsRetries s = Some r" "maxWsRetries s = Some m" "m \<le> r"
  shows "timers (onclose s) = timers s"
    and "wsRetries (onclose s) = Some r" and "maxWsRetries (onclose s) = Some m"
  using assms by (simp_all add: onclose_def Let_def)

lemma onclose_undefined:
  assumes "wsRetries s = None \<or> maxWsRetries s = None"
  shows "timers (onclose s) = timers s"
    and "wsRetries (onclose s) = wsRetries s" and "maxWsRetries (onclose s) = maxWsRetries s"
  using assms by (auto simp: onclose_def Let_def split: option.splits)

lemma disconnects_Suc: "disconnects (Suc n) s = onclose (disconnects n s)"
  by (simp add: disconnects_def)

lemma disconnects_defined:
  assumes "wsRetries s = Some r" "maxWsRetries s = Some m"
  shows "timers (disconnects n s) = timers s @ map backoffDelay [r..<min (r + n) m]
       \<and> wsRetries (disconnects n s) = Some (if r < m then min (r + n) m else r)
       \<and> maxWsRetries (disconnects n s) = Some m"
proof (induction n)
  case 0
  show ?case using assms by (simp add: disconnects_def)
next
  case (Suc n)
  let ?t = "disconnects n s"
  let ?k = "if r < m then min (r + n) m else r"
  from Suc have t: "timers ?t = timers s @ map backoffDelay [r..<min (r + n) m]"
    and w: "wsRetries ?t = Some ?k" and x: "maxWsRetries ?t = Some m"
    by simp_all
  show ?case
  proof (cases "?k < m")
    case True
    then have rn: "r + n < m" by (simp split: if_splits)
    then have k: "?k = r + n" by simp
    have "timers (onclose ?t) = timers ?t @ [backoffDelay ?k]"
      and "wsRetries (onclose ?t) = Some (?k + 1)" and "maxWsRetries (onclose ?t) = Some m"
      using onclose_retry [OF w x True] by simp_all
    then show ?thesis
      using rn t unfolding disconnects_Suc k by (simp add: min_def)
  next
    case False
    then have le: "m \<le> ?k" by simp
    have "timers (onclose ?t) = timers ?t"
      and "wsRetries (onclose ?t) = Some ?k" and "maxWsRetries (onclose ?t) = Some m"
      using onclose_stop [OF w x le] by simp_all
    moreover have "min (r + Suc n) m = min (r + n) m \<or> m \<le> r"
      using False by (simp split: if_splits add: min_def)
    moreover have "m \<le> r \<Longrightarrow> [r..<min (r + Suc n) m] = [r..<min (r + n) m]"
      by simp
    ultimately show ?thesis
      using t False unfolding disconnects_Suc by (auto split: if_splits simp: min_def)
  qed
qed

lemma disconnects_undefined:
  assumes "wsRetries s = None \<or> maxWsRetries s = None"
  shows "timers (disconnects n s) = timers s
       \<and> wsRetries (disconnects n s) = wsRetries s
       \<and> maxWsRetries (disconnects n s) = maxWsRetries s"
proof (induction n)
  case 0
  show ?case by (simp add: disconnects_def)
next
  case (Suc n)
  then have "wsRetries (disconnects n s) = None \<or> maxWsRetries (disconnects n s) = None"
    using assms by simp
  from onclose_undefined [OF this] Suc show ?case
    unfolding disconnects_Suc by simp
qed


lemma apply_frame_ws:
  "timers (final_state (applyFiltersAndRender v pf s)) = timers s"
  "wsRetries (final_state (applyFiltersAndRender v pf s)) = wsRetries s"
  by (simp_all add: applyFiltersAndRender_def final_state_def split: sum.splits)

lemma updateKPIs_frame_ws:
  "timers (updateKPIs v pf s) = timers s"
  "wsRetries (updateKPIs v pf s) = wsRetries s"
  by (cases v; simp add: updateKPIs_def updateTime_def split: option.splits)+

lemma handleDataUpdate_frame_ws:
  "timers (final_state (handleDataUpdate v pf msg s)) = timers s"
  "wsRetries (final_state (handleDataUpdate v pf msg s)) = wsRetries s"
proof -
  define s2 where "s2 = s\<lparr> data := (case msg_data msg of None \<Rightarrow> [] | Some xs \<Rightarrow> xs),
      lastUpdate := msg_timestamp msg,
      dom_dataStatus := length (case msg_data msg of None \<Rightarrow> [] | Some xs \<Rightarrow> xs) \<rparr>"
  have h: "handleDataUpdate v pf msg s =
      (case applyFiltersAndRender v pf s2 of
         Threw e s3 \<Rightarrow> Threw e s3 | Done s3 \<Rightarrow> Done (updateKPIs v pf s3))"
    by (simp add: handleDataUpdate_def Let_def s2_def)
  have a: "timers (final_state (applyFiltersAndRender v pf s2)) = timers s"
    "wsRetries (final_state (applyFiltersAndRender v pf s2)) = wsRetries s"
    by (simp_all add: apply_frame_ws s2_def)
  show "timers (final_state (handleDataUpdate v pf msg s)) = timers s"
    using a(1) unfolding h
    by (cases "applyFiltersAndRender v pf s2") (simp_all add: final_state_def updateKPIs_frame_ws)
  show "wsRetries (final_state (handleDataUpdate v pf msg s)) = wsRetries s"
    using a(2) unfolding h
    by (cases "applyFiltersAndRender v pf s2") (simp_all add: final_state_def updateKPIs_frame_ws)
qed

lemma catch_log_frame_ws:
  "timers (catch_log r) = timers (final_state r)"
  "wsRetries (catch_log r) = wsRetries (final_state r)"
  by (cases r; simp add: catch_log_def final_state_def)+

lemma refreshBody_frame_ws:
  "timers (final_state (refreshBody v pf rp s)) = timers s
   \<and> wsRetries (final_state (refreshBody v pf rp s)) = wsRetries s"
proof (cases v)
  case Current
  then show ?thesis by (simp add: refreshBody_def final_state_def)
next
  case Legacy
  show ?thesis
  proof (cases "ws s = Some OPEN")
    case True
    then show ?thesis by (simp add: Legacy refreshBody_def final_state_def)
  next
    case closed: False
    show ?thesis
    proof (cases "refresh_reply rp")
      case (Inl e)
      then show ?thesis
        using closed by (simp add: Legacy refreshBody_def Let_def final_state_def)
    next
      case (Inr st)
      show ?thesis
      proof (cases "st = Some ''ok''")
        case True
        show ?thesis
        proof (cases "opportunities_reply rp")
          case (Inl e)
          then show ?thesis
            using closed Inr True
            by (simp add: Legacy refreshBody_def Let_def final_state_def)
        next
          case json: (Inr dataJson)
          then show ?thesis
            using closed Inr True
            by (simp add: Legacy refreshBody_def Let_def handleDataUpdate_frame_ws)
        qed
      next
        case False
        then show ?thesis
          using closed Inr by (simp add: Legacy refreshBody_def Let_def final_state_def)
      qed
    qed
  qed
qed

lemma refreshClick_frame_ws:
  "timers (refreshClick v pf rp s) = timers s"
  "wsRetries (refreshClick v pf rp s) = wsRetries s"
  by (simp_all add: refreshClick_def catch_log_frame_ws refreshBody_frame_ws)

subsection \<open>The refresh listener of the older copy\<close>

lemma refresh_click_legacy_closed:
  assumes "ws s \<noteq> Some OPEN" "refresh_reply rp = Inr (Some ''ok'')"
    "opportunities_reply rp = Inr dataJson"
  shows "refreshClick Legacy pf rp s =
     catch_log (handleDataUpdate Legacy pf dataJson
       (s\<lparr> requests := requests s @ [''POST /api/refresh'', ''GET /api/opportunities''] \<rparr>))"
  using assms by (simp add: refreshClick_def refreshBody_def Let_def)

subsection \<open>Letter case in the search\<close>










section \<open>C1: the rendered rows are exactly the rows that pass the active filters\<close>



section \<open>C2: after every event the table is the sorted, filtered latest snapshot\<close>



section \<open>C3: the best-APR KPI is the maximum over the unfiltered snapshot\<close>

text \<open>
  C3. For every non-empty snapshot, the best APR that updateKPIs computes is the maximum of
  \<^verbatim>\<open>net_apr\<close> over the whole cached snapshot, a missing \<^verbatim>\<open>net_apr\<close> counting as 0, and the
  KPI element shows it with two decimals and a percent sign. The value does not depend on
  the filter controls or the sort state, and it is what a data update of that snapshot
  leaves in the element whatever the state it arrives in.
\<close>

theorem kpi_best_apr:
  assumes "data s \<noteq> []"
  shows "topApr s = Max ((\<lambda>d. num_or (net_apr d) 0) ` set (data s))
       \<and> dom_kpiBestApr (updateKPIs v pf s) =
           fmt (Some (Max ((\<lambda>d. num_or (net_apr d) 0) ` set (data s)))) @ ''%''
       \<and> dom_kpiBestApr (updateKPIs v pf (s\<lparr> dom_controls := c, sortCol := col, sortAsc := asc \<rparr>))
           = dom_kpiBestApr (updateKPIs v pf s)
       \<and> (\<forall>msg t t'. msg_data msg = Some (data s) \<and> handleDataUpdate v pf msg t = Done t' \<longrightarrow>
             dom_kpiBestApr t' =
               fmt (Some (Max ((\<lambda>d. num_or (net_apr d) 0) ` set (data s)))) @ ''%'')"
proof -
  note top = topApr_Max [OF assms]
  have 2: "dom_kpiBestApr (updateKPIs v pf s) =
           fmt (Some (Max ((\<lambda>d. num_or (net_apr d) 0) ` set (data s)))) @ ''%''"
    using assms by (simp add: kpiBestApr_updateKPIs top)
  have "topApr (s\<lparr> dom_controls := c, sortCol := col, sortAsc := asc \<rparr>) = topApr s"
    by (rule topApr_data) simp
  then have 3: "dom_kpiBestApr (updateKPIs v pf (s\<lparr> dom_controls := c, sortCol := col, sortAsc := asc \<rparr>))
           = dom_kpiBestApr (updateKPIs v pf s)"
    using assms by (simp add: kpiBestApr_updateKPIs)
  have 4: "\<forall>msg t t'. msg_data msg = Some (data s) \<and> handleDataUpdate v pf msg t = Done t' \<longrightarrow>
             dom_kpiBestApr t' =
               fmt (Some (Max ((\<lambda>d. num_or (net_apr d) 0) ` set (data s)))) @ ''%''"
  proof (intro allI impI)
    fix msg t t'
    assume a: "msg_data msg = Some (data s) \<and> handleDataUpdate v pf msg t = Done t'"
    then obtain s3 where s3: "t' = updateKPIs v pf s3" "data s3 = data s"
      using handleDataUpdate_Done [of v pf msg t t'] by auto
    have "topApr s3 = topApr s" using s3(2) by (rule topApr_data)
    then show "dom_kpiBestApr t' =
               fmt (Some (Max ((\<lambda>d. num_or (net_apr d) 0) ` set (data s)))) @ ''%''"
      using assms s3 by (simp add: kpiBestApr_updateKPIs top)
  qed
  from top 2 3 4 show ?thesis by blast
qed

theorem kpi_best_apr_witness:
  "data search_btc \<noteq> []
   \<and> applyFilters Current (dom_controls search_btc) (data search_btc) = [btc]
   \<and> dom_kpiBestApr (updateKPIs Current host search_btc) = ''60.00%''"
proof -
  have d: "data search_btc = [eth, btc]" by (simp add: search_btc_def page_def)
  have m: "Max ((\<lambda>d. num_or (net_apr d) 0) ` set (data search_btc)) = 60"
    by (simp add: d eth_def btc_def blank_def num_or_def)
  have f: "applyFilters Current (dom_controls search_btc) (data search_btc) = [btc]"
    unfolding search_btc_def page_def no_filters_def eth_def btc_def blank_def by code_simp
  have ne: "data search_btc \<noteq> []" by (simp add: d)
  from kpi_best_apr [OF ne, of Current host]
  have "dom_kpiBestApr (updateKPIs Current host search_btc) =
      fmt (Some (Max ((\<lambda>d. num_or (net_apr d) 0) ` set (data search_btc)))) @ ''%''"
    by blast
  then have "dom_kpiBestApr (updateKPIs Current host search_btc) = ''60.00%''"
    unfolding m by (simp add: fmt_def toFixed2_eval)
  with ne f show ?thesis by simp
qed

section \<open>C4: reconnect backoff\<close>

text \<open>
  C4. Over \<open>n\<close> consecutive disconnects with no open in between, starting from any state:
  the delays of the reconnects that onclose schedules are, in order,
  \<open>min (1000 * 1.5 ^ k) 30000\<close> for the retry counts \<open>k\<close> from the current one up to the bound;
  they are non-decreasing and none exceeds 30000; at most (bound minus current count) are
  scheduled; once the count has reached the bound onclose schedules nothing and leaves the
  count as it is. When either retry field is undefined, as in the state of \<open>Current\<close>, no
  reconnect is scheduled at all. A click on the refresh button neither schedules a
  reconnect nor changes the retry count.
\<close>

theorem reconnect_backoff:
  "(\<forall>r m. wsRetries s = Some r \<and> maxWsRetries s = Some m \<longrightarrow>
        timers (disconnects n s) =
          timers s @ map (\<lambda>k. min (1000 * (3 / 2) ^ k) 30000) [r..<min (r + n) m]
      \<and> length (timers (disconnects n s)) - length (timers s) \<le> m - r
      \<and> (m \<le> r \<longrightarrow> timers (onclose s) = timers s \<and> wsRetries (onclose s) = Some r))
   \<and> (wsRetries s = None \<or> maxWsRetries s = None \<longrightarrow> timers (disconnects n s) = timers s)
   \<and> take (length (timers s)) (timers (disconnects n s)) = timers s
   \<and> sorted (drop (length (timers s)) (timers (disconnects n s)))
   \<and> (\<forall>d \<in> set (drop (length (timers s)) (timers (disconnects n s))). d \<le> 30000)
   \<and> timers (refreshClick v pf rp s) = timers s
   \<and> wsRetries (refreshClick v pf rp s) = wsRetries s"
proof -
  have bd: "backoffDelay = (\<lambda>k. min (1000 * (3 / 2) ^ k) 30000)"
    by (rule ext) (simp add: backoffDelay_def)
  have 1: "\<forall>r m. wsRetries s = Some r \<and> maxWsRetries s = Some m \<longrightarrow>
        timers (disconnects n s) =
          timers s @ map (\<lambda>k. min (1000 * (3 / 2) ^ k) 30000) [r..<min (r + n) m]
      \<and> length (timers (disconnects n s)) - length (timers s) \<le> m - r
      \<and> (m \<le> r \<longrightarrow> timers (onclose s) = timers s \<and> wsRetries (onclose s) = Some r)"
  proof (intro allI impI)
    fix r m assume a: "wsRetries s = Some r \<and> maxWsRetries s = Some m"
    then have t: "timers (disconnects n s) = timers s @ map backoffDelay [r..<min (r + n) m]"
      using disconnects_defined [of s r m n] by simp
    have "m \<le> r \<longrightarrow> timers (onclose s) = timers s \<and> wsRetries (onclose s) = Some r"
      using a onclose_stop [of s r m] by simp
    then show "timers (disconnects n s) =
          timers s @ map (\<lambda>k. min (1000 * (3 / 2) ^ k) 30000) [r..<min (r + n) m]
      \<and> length (timers (disconnects n s)) - length (timers s) \<le> m - r
      \<and> (m \<le> r \<longrightarrow> timers (onclose s) = timers s \<and> wsRetries (onclose s) = Some r)"
      using t by (simp add: bd)
  qed
  have 2: "wsRetries s = None \<or> maxWsRetries s = None \<longrightarrow> timers (disconnects n s) = timers s"
    using disconnects_undefined [of s n] by simp
  have "\<exists>a b. timers (disconnects n s) = timers s @ map backoffDelay [a..<b]"
  proof (cases "wsRetries s = None \<or> maxWsRetries s = None")
    case True
    then have "timers (disconnects n s) = timers s @ map backoffDelay [0..<0]"
      using 2 by simp
    then show ?thesis by blast
  next
    case False
    then obtain r m where "wsRetries s = Some r" "maxWsRetries s = Some m" by auto
    from disconnects_defined [OF this, of n] show ?thesis by blast
  qed
  then obtain a b where ab: "timers (disconnects n s) = timers s @ map backoffDelay [a..<b]"
    by blast
  have 3: "take (length (timers s)) (timers (disconnects n s)) = timers s"
    by (simp add: ab)
  have 4: "sorted (drop (length (timers s)) (timers (disconnects n s)))"
    by (simp add: ab sorted_backoff)
  have 5: "\<forall>d \<in> set (drop (length (timers s)) (timers (disconnects n s))). d \<le> 30000"
    by (auto simp: ab backoffDelay_cap)
  from 1 2 3 4 5 refreshClick_frame_ws [of v pf rp s] show ?thesis by blast
qed

theorem reconnect_backoff_witness:
  "wsRetries legacy_start = Some 0 \<and> maxWsRetries legacy_start = Some 50
   \<and> timers (disconnects 3 legacy_start) = [1000, 1500, 2250]
   \<and> wsRetries legacy_exhausted = Some 50 \<and> maxWsRetries legacy_exhausted = Some 50
   \<and> timers (onclose legacy_exhausted) = []"
proof -
  have a: "wsRetries legacy_start = Some 0 \<and> maxWsRetries legacy_start = Some 50"
    and t: "timers legacy_start = []"
    by (simp_all add: legacy_start_def init_state_def page_def)
  have b: "wsRetries legacy_exhausted = Some 50 \<and> maxWsRetries legacy_exhausted = Some 50"
    and u: "timers legacy_exhausted = []"
    by (simp_all add: legacy_exhausted_def legacy_start_def init_state_def page_def)
  have l: "[0..<min (0 + 3) 50] = [0, Suc 0, Suc (Suc 0)]"
    by (simp add: numeral_3_eq_3 upt_conv_Cons)
  note r1 = reconnect_backoff [of legacy_start 3, THEN conjunct1, rule_format, OF a]
  then have "timers (disconnects 3 legacy_start) =
      timers legacy_start @ map (\<lambda>k. min (1000 * (3 / 2) ^ k) 30000) [0..<min (0 + 3) 50]"
    by (rule conjunct1)
  then have 1: "timers (disconnects 3 legacy_start) = [1000, 1500, 2250]"
    unfolding l t by (simp add: power2_eq_square)
  note r2 = reconnect_backoff [of legacy_exhausted 0, THEN conjunct1, rule_format, OF b]
  have 2: "timers (onclose legacy_exhausted) = []"
    using r2 [THEN conjunct2, THEN conjunct2] by (simp add: u)
  from a b 1 2 show ?thesis by simp
qed

section \<open>C5: the refresh button\<close>

text \<open>
  C5 says that a click sends a refresh directive when the socket is open and otherwise
  pulls (POST \<^verbatim>\<open>/api/refresh\<close>, then GET \<^verbatim>\<open>/api/opportunities\<close>) and applies the result through
  handleDataUpdate, never throwing. The listener of \<open>Legacy\<close> does this. The listener of
  \<open>Current\<close> does not: with the socket open its first statement reads a variable that is
  not in scope, so the \<^verbatim>\<open>catch\<close> logs a ReferenceError and nothing is sent or requested; with
  the socket closed there is no branch at all and the click changes nothing. In neither
  case does the listener throw.
\<close>

theorem refresh_click_current:
  "refreshClick Current pf rp (s\<lparr> ws := Some OPEN \<rparr>)
     = s\<lparr> ws := Some OPEN, console := console s @ [ReferenceError] \<rparr>
   \<and> wsSent (refreshClick Current pf rp (s\<lparr> ws := Some OPEN \<rparr>)) = wsSent s
   \<and> requests (refreshClick Current pf rp (s\<lparr> ws := Some OPEN \<rparr>)) = requests s
   \<and> refreshClick Current pf rp (s\<lparr> ws := None \<rparr>) = s\<lparr> ws := None \<rparr>
   \<and> refreshClick Legacy pf rp (s\<lparr> ws := Some OPEN \<rparr>)
     = s\<lparr> ws := Some OPEN, wsSent := wsSent s @ [''refresh''] \<rparr>"
  by (simp add: refreshClick_def refreshBody_def catch_log_def)

section \<open>C6: the pipeline is deterministic, but it reads and writes the page\<close>




section \<open>C7: the daily-earnings figure\<close>



section \<open>C8: the sort is stable and idempotent\<close>



section \<open>C9: the chart opener on an empty series\<close>

text \<open>
  C9 says that an empty series shows a no-data message. The emptiness test of
  openChartModal looks at \<^verbatim>\<open>data.length\<close> of the reply, which exists when the reply is a bare
  array; the series it then draws is \<^verbatim>\<open>data.data\<close>, a property of a reply object. For a reply
  object whose series is empty no message is shown: renderChart returns without drawing,
  nothing is thrown or logged, and the modal stays open with no chart. For an empty bare
  array the message is shown.
\<close>

theorem empty_series_no_message:
  "alerts (openChartModal pf token (Inr (HObject (Some []) tr)) (u\<lparr> modal_present := True \<rparr>))
     = alerts u
   \<and> chartInstance (openChartModal pf token (Inr (HObject (Some []) tr))
        (u\<lparr> modal_present := True \<rparr>)) = None
   \<and> title_error (title (openChartModal pf token (Inr (HObject (Some []) tr))
        (u\<lparr> modal_present := True \<rparr>))) = False
   \<and> chart_console (openChartModal pf token (Inr (HObject (Some []) tr))
        (u\<lparr> modal_present := True \<rparr>)) = chart_console u
   \<and> alerts (openChartModal pf token (Inr (HArray [])) (u\<lparr> modal_present := True \<rparr>))
     = alerts u @ [''No history data available for this token yet.'']"
  by (cases "chartInstance u"; cases tr)
    (simp_all add: openChartModal_def chartBody_def renderChart_def noHistory_def
      history_trend_def history_data_def Let_def)

section \<open>C10: an empty update leaves the KPIs as they were\<close>

text \<open>
  C10. When a data update delivers an empty opportunity list (or none), updateKPIs returns
  at once: the update runs to its end, the cached snapshot is empty and the table shows
  the placeholder row, and every KPI element (best APR, count, last update, and the two
  further ones of the older copy) still holds what it held before the update.
\<close>

theorem kpi_unchanged_on_empty:
  assumes "msg_data msg = None \<or> msg_data msg = Some []"
  shows "\<exists>s'. handleDataUpdate v pf msg s = Done s'
       \<and> data s' = [] \<and> updateKPIs v pf s' = s'
       \<and> dom_kpiBestApr s' = dom_kpiBestApr s
       \<and> dom_kpiOppsCount s' = dom_kpiOppsCount s
       \<and> dom_kpiLastUpdate s' = dom_kpiLastUpdate s
       \<and> dom_kpiAvgApr s' = dom_kpiAvgApr s
       \<and> dom_kpiHigh s' = dom_kpiHigh s
       \<and> dom_tbody s' = Placeholder \<and> dom_dataStatus s' = 0"
proof -
  define s3 where "s3 = s\<lparr> data := [], lastUpdate := msg_timestamp msg, dom_dataStatus := 0,
      filtered := [], dom_filteredCount := 0, dom_tbody := Placeholder \<rparr>"
  have d: "(case msg_data msg of None \<Rightarrow> [] | Some xs \<Rightarrow> xs) = []"
    using assms by auto
  have a: "applyFiltersAndRender v pf
      (s\<lparr> data := [], lastUpdate := msg_timestamp msg, dom_dataStatus := 0 \<rparr>) = Done s3"
    by (simp add: applyFiltersAndRender_def renderTable_def s3_def)
  have k: "updateKPIs v pf s3 = s3"
    by (rule updateKPIs_empty) (simp add: s3_def)
  have "handleDataUpdate v pf msg s = Done s3"
    unfolding handleDataUpdate_Done_iff d using a k by simp
  then show ?thesis using k by (auto simp: s3_def)
qed

theorem kpi_unchanged_on_empty_witness:
  "(msg_data empty_update = None \<or> msg_data empty_update = Some [])
   \<and> dom_kpiBestApr after_eth = ''60.00%''
   \<and> (\<exists>s'. handleDataUpdate Current host empty_update after_eth = Done s'
          \<and> data s' = [] \<and> dom_kpiBestApr s' = ''60.00%'' \<and> dom_kpiOppsCount s' = ''1''
          \<and> dom_kpiLastUpdate s' = ''12:00'' \<and> dom_tbody s' = Placeholder)"
proof -
  have e: "msg_data empty_update = None \<or> msg_data empty_update = Some []"
    by (simp add: empty_update_def)
  have k: "dom_kpiBestApr after_eth = ''60.00%''" "dom_kpiOppsCount after_eth = ''1''"
    "dom_kpiLastUpdate after_eth = ''12:00''"
    by (simp_all add: after_eth_def page_def)
  from kpi_unchanged_on_empty [OF e, of Current host after_eth] k e
  show ?thesis by auto
qed

end
